theory Spec2Isabelle
  imports Main
begin

section \<open>The command line of the discount code exporter (cli.js)\<close>

text \<open>
  The module parses its options with yargs, resolves credentials and the field list
  side by side, builds a \<open>DiscountCodeExport\<close> from both and runs it on the output
  stream. Everything the module calls but does not define (the file system, readline,
  \<open>getCredentials\<close>, the \<open>DiscountCodeExport\<close> class, \<open>PrettyError\<close>) is a field
  of the record \<open>env\<close>: the theorems hold for every behaviour of these collaborators.
\<close>

subsection \<open>JavaScript values\<close>

text \<open>
  An option value as yargs hands it over: text, a number (yargs turns numeric-looking
  text into a number; only whole numbers are modelled) or a boolean (a flag without a
  value). An option that was not given and has no default is \<open>undefined\<close>: \<open>None\<close>.
\<close>

datatype jsval = JStr string | JNum int | JBool bool

text \<open>JavaScript truthiness, as \<open>if (x)\<close> and \<open>!x\<close> test it.\<close>

fun truthy :: "jsval option \<Rightarrow> bool" where
  "truthy None = False"
| "truthy (Some (JStr s)) = (s \<noteq> [])"
| "truthy (Some (JNum n)) = (n \<noteq> 0)"
| "truthy (Some (JBool b)) = b"

text \<open>\<open>String(x)\<close>: decimal digits for a whole number.\<close>

definition digit :: "nat \<Rightarrow> char" where
  "digit n = char_of (48 + n)"

function show_nat :: "nat \<Rightarrow> string" where
  "show_nat n = (if n < 10 then [digit n] else show_nat (n div 10) @ [digit (n mod 10)])"
  by pat_completeness auto
termination
  by (relation "measure (\<lambda>n. n)") auto

fun toString :: "jsval \<Rightarrow> string" where
  "toString (JStr s) = s"
| "toString (JNum n) = (if n < 0 then CHR ''-'' # show_nat (nat (- n)) else show_nat (nat n))"
| "toString (JBool b) = (if b then ''true'' else ''false'')"

text \<open>
  \<open>String.prototype.split(separator)\<close> with a string separator and no limit: an empty
  separator cuts the string into its code units; otherwise the string is cut at each
  occurrence of the separator, found from left to right, the search resuming right after
  the occurrence. \<open>split_from sep acc s\<close> scans \<open>s\<close>, with \<open>acc\<close> the code units of the
  current piece, latest first.
\<close>

function split_from :: "'a list \<Rightarrow> 'a list \<Rightarrow> 'a list \<Rightarrow> 'a list list" where
  "split_from sep acc [] = [rev acc]"
| "split_from sep acc (c # cs) =
     (if sep \<noteq> [] \<and> take (length sep) (c # cs) = sep
      then rev acc # split_from sep [] (drop (length sep) (c # cs))
      else split_from sep (c # acc) cs)"
  by pat_completeness auto
termination
  by (relation "measure (\<lambda>(sep, acc, s). length s)") auto

definition split_js :: "'a list \<Rightarrow> 'a list \<Rightarrow> 'a list list" where
  "split_js s sep = (if sep = [] then map (\<lambda>c. [c]) s else split_from sep [] s)"

text \<open>\<open>Array.prototype.join(separator)\<close>, the inverse the split is measured against.\<close>

fun join_js :: "'a list \<Rightarrow> 'a list list \<Rightarrow> 'a list" where
  "join_js sep [] = []"
| "join_js sep [x] = x"
| "join_js sep (x # y # ys) = x @ sep @ join_js sep (y # ys)"

subsection \<open>Errors and promises\<close>

text \<open>
  A thrown or rejected value: an \<open>Error\<close> object with its message, or any other value.
  The error handler also accepts an array of them.
\<close>

datatype error = Error string | Thrown jsval

datatype failure = One error | Many "error list"

text \<open>
  The state of a promise once the event loop has nothing left to do: still pending
  (it never settles), fulfilled with a value or rejected with a reason.
\<close>

datatype 'a outcome = Pending | Resolved 'a | Rejected failure

text \<open>\<open>resolve\<close> and \<open>reject\<close> of a promise executor: only the first call settles.\<close>

fun resolve :: "'a \<Rightarrow> 'a outcome \<Rightarrow> 'a outcome" where
  "resolve v Pending = Resolved v"
| "resolve v p = p"

fun reject :: "failure \<Rightarrow> 'a outcome \<Rightarrow> 'a outcome" where
  "reject e Pending = Rejected e"
| "reject e p = p"

subsection \<open>Streams, options and the collaborators\<close>

text \<open>
  \<open>ReadStream p\<close> is \<open>fs.createReadStream(p)\<close>; \<open>WriteStream p\<close> is
  \<open>fs.createWriteStream(p)\<close>, told apart from \<open>process.stdout\<close> as \<open>===\<close> does.
\<close>

datatype read_stream = ReadStream string

datatype stream = ProcessStdout | WriteStream jsval

text \<open>
  What a readline interface emits while it reads its input: a \<open>line\<close> event for each
  line and an \<open>error\<close> event. The end of the list is the end of the input (the \<open>close\<close>
  event).
\<close>

datatype rl_event = Line string | RlError error

text \<open>
  The parsed options, \<open>args\<close>. \<open>output_stream\<close> is the option \<open>output\<close> and
  \<open>where_predicate\<close> the option \<open>where\<close>.
\<close>

record args =
  template :: "read_stream option"
  language :: jsval
  output_stream :: stream
  apiUrl :: jsval
  authUrl :: jsval
  delimiter :: jsval
  multiValueDelimiter :: jsval
  accessToken :: "jsval option"
  projectKey :: jsval
  where_predicate :: "jsval option"
  exportFormat :: jsval
  batchSize :: jsval
  logFile :: jsval

text \<open>A credentials object, as its properties; \<open>{}\<close> is the empty list.\<close>

type_synonym credentials = "(string \<times> jsval) list"

text \<open>
  \<open>apiConfig\<close> and \<open>constructorOptions\<close> as the first \<open>then\<close> callback builds them.
  Their properties carry the prefixes \<open>api_\<close> and \<open>co_\<close> to keep them apart from
  those of \<open>args\<close>.
\<close>

record apiConfig =
  api_host :: jsval
  api_apiUrl :: jsval
  api_projectKey :: jsval
  api_credentials :: credentials

record constructorOptions =
  co_apiConfig :: apiConfig
  co_accessToken :: "jsval option"
  co_batchSize :: jsval
  co_delimiter :: jsval
  co_exportFormat :: jsval
  co_language :: jsval
  co_multiValueDelimiter :: jsval
  co_predicate :: "jsval option"
  co_fields :: "string list option"

text \<open>
  What \<open>discountCodeExport.run(args.output)\<close> does as far as this module can see: the
  \<open>error\<close> events the output stream emits meanwhile and the promise (or plain value)
  it returns.
\<close>

record run_result =
  emitted :: "failure list"
  returned :: "unit outcome"

text \<open>
  The collaborators. \<open>existsSync\<close> is \<open>fs.existsSync\<close>; \<open>rl_events p\<close> is what the
  readline interface over the file \<open>p\<close> emits; \<open>getCredentials\<close> is the credential
  exchange; \<open>construct opts\<close> is what \<open>new DiscountCodeExport(opts, logger)\<close> throws, if
  anything; \<open>run\<close> is the method \<open>run\<close> of the object built from \<open>opts\<close>; \<open>render\<close> is
  \<open>PrettyError.render\<close>; \<open>credentials_first\<close> says that, when both start-up promises
  reject, the credential promise does so first.
\<close>

record env =
  existsSync :: "jsval \<Rightarrow> bool"
  rl_events :: "string \<Rightarrow> rl_event list"
  getCredentials :: "jsval \<Rightarrow> credentials outcome"
  construct :: "constructorOptions \<Rightarrow> failure option"
  run :: "constructorOptions \<Rightarrow> stream \<Rightarrow> run_result"
  render :: "error \<Rightarrow> string"
  credentials_first :: bool

subsection \<open>Option parsing\<close>

text \<open>
  The command line after yargs has split it: a value for each option that was given,
  under the option's long name.
\<close>

type_synonym argv = "string \<Rightarrow> jsval option"

definition with_default :: "jsval option \<Rightarrow> jsval \<Rightarrow> jsval" where
  "with_default v d = (case v of None \<Rightarrow> d | Some x \<Rightarrow> x)"

definition coerce_template :: "env \<Rightarrow> jsval \<Rightarrow> error + read_stream" where
  "coerce_template env arg =
     (if existsSync env arg then Inr (ReadStream (toString arg))
      else Inl (Error ''Input file cannot be reached or does not exist''))"

definition coerce_output :: "jsval \<Rightarrow> stream" where
  "coerce_output arg =
     (if arg \<noteq> JStr ''stdout'' then WriteStream (JStr (toString arg)) else ProcessStdout)"

text \<open>
  How yargs ends when it refuses the command line: a coercion threw, a demanded option
  is missing, or a value is not among the option's choices.
\<close>

datatype usage_error =
  CoerceThrew error | MissingRequired string | InvalidValues string jsval

text \<open>
  The option table: defaults, the coercions of \<open>template\<close> and \<open>output\<close> (a coercion
  runs on a default too), the demanded \<open>projectKey\<close> and the choices of
  \<open>exportFormat\<close>. Coercions run while yargs parses, its validation afterwards.
\<close>

definition parse_args :: "env \<Rightarrow> argv \<Rightarrow> usage_error + args" where
  "parse_args env argv =
     (case (case argv ''template'' of
              None \<Rightarrow> Inr None
            | Some arg \<Rightarrow>
                (case coerce_template env arg of Inl e \<Rightarrow> Inl e | Inr s \<Rightarrow> Inr (Some s))) of
        Inl e \<Rightarrow> Inl (CoerceThrew e)
      | Inr t \<Rightarrow>
          (case argv ''projectKey'' of
             None \<Rightarrow> Inl (MissingRequired ''projectKey'')
           | Some pk \<Rightarrow>
               (let f = with_default (argv ''exportFormat'') (JStr ''json'') in
                if f \<in> set [JStr ''csv'', JStr ''json'']
                then Inr \<lparr>template = t,
                  language = with_default (argv ''language'') (JStr ''en''),
                  output_stream = coerce_output (with_default (argv ''output'') (JStr ''stdout'')),
                  apiUrl = with_default (argv ''apiUrl'')
                    (JStr ''https://api.europe-west1.gcp.commercetools.com''),
                  authUrl = with_default (argv ''authUrl'')
                    (JStr ''https://auth.europe-west1.gcp.commercetools.com''),
                  delimiter = with_default (argv ''delimiter'') (JStr '',''),
                  multiValueDelimiter = with_default (argv ''multiValueDelimiter'') (JStr '';''),
                  accessToken = argv ''accessToken'',
                  projectKey = pk,
                  where_predicate = argv ''where'',
                  exportFormat = f,
                  batchSize = with_default (argv ''batchSize'') (JNum 500),
                  logFile = with_default (argv ''logFile'') (JStr ''discount-code-export.log'')\<rparr>
                else Inl (InvalidValues ''exportFormat'' f))))"

text \<open>The coercion of \<open>logLevel\<close> stores its argument in \<open>npmlog.level\<close>.\<close>

definition coerce_logLevel :: "argv \<Rightarrow> jsval" where
  "coerce_logLevel argv = with_default (argv ''logLevel'') (JStr ''info'')"

subsection \<open>The process and the error handler\<close>

datatype action =
  GetCredentials jsval
| CreateInterface read_stream
| NewDiscountCodeExport constructorOptions
| RunExport constructorOptions stream
| OutputError failure
| ErrorHandler failure

text \<open>
  The observable state of the process: \<open>process.exitCode\<close> (\<open>None\<close> while it is not
  set: the process then exits with 0), what was written to \<open>process.stderr\<close>,
  \<open>npmlog.level\<close>, \<open>npmlog.stream\<close> (\<open>None\<close> while the module has not assigned it) and
  the calls and events so far, in order: a call of \<open>getCredentials\<close>, of
  \<open>readline.createInterface\<close>, of the constructor, of \<open>run\<close>, an \<open>error\<close> event of the
  output stream, a call of \<open>errorHandler\<close>.
\<close>

record process =
  exitCode :: "nat option"
  stderr :: "string list"
  npmlog_level :: jsval
  npmlog_stream :: "stream option"
  trace :: "action list"

text \<open>\<open>error.message || error\<close>, as the template literal prints it.\<close>

fun message_or_error :: "error \<Rightarrow> string" where
  "message_or_error (Error m) = (if m \<noteq> [] then m else ''Error'')"
| "message_or_error (Thrown v) = toString v"

definition logError :: "env \<Rightarrow> error \<Rightarrow> process \<Rightarrow> process" where
  "logError env error s =
     (if npmlog_level s = JStr ''verbose''
      then s\<lparr>stderr := stderr s @ [''ERR: '' @ render env error]\<rparr>
      else s\<lparr>stderr := stderr s @ [''ERR: '' @ message_or_error error]\<rparr>)"

definition errorHandler :: "env \<Rightarrow> failure \<Rightarrow> process \<Rightarrow> process" where
  "errorHandler env errors s =
     (let s1 = s\<lparr>trace := trace s @ [ErrorHandler errors]\<rparr>;
          s2 = (case errors of
                  Many es \<Rightarrow> foldl (\<lambda>s e. logError env e s) s1 es
                | One e \<Rightarrow> logError env e s1)
      in s2\<lparr>exitCode := Some 1\<rparr>)"

subsection \<open>Field list and credentials\<close>

text \<open>
  The promise of \<open>getFields\<close> and the flag of \<open>rl.close()\<close>, while the readline
  interface delivers its events to the two listeners. Node lets an interface emit lines
  it has already buffered after \<open>rl.close()\<close>, so every event of the list is delivered;
  the listeners stay registered. \<open>lines_handled\<close> counts the calls of the \<open>line\<close>
  listener; nothing in the module reads it.
\<close>

record rl_state =
  promise :: "string list option outcome"
  closed :: bool
  lines_handled :: nat

text \<open>The listeners: \<open>rl.on('error', reject)\<close> and the one for \<open>line\<close>.\<close>

fun emit :: "jsval \<Rightarrow> rl_state \<Rightarrow> rl_event \<Rightarrow> rl_state" where
  "emit d s (RlError e) = s\<lparr>promise := reject (One e) (promise s)\<rparr>"
| "emit d s (Line line) =
     s\<lparr>lines_handled := Suc (lines_handled s), closed := True,
       promise := resolve (Some (split_js line (toString d))) (promise s)\<rparr>"

definition rl_run :: "jsval \<Rightarrow> rl_event list \<Rightarrow> rl_state" where
  "rl_run d evs =
     foldl (emit d) \<lparr>promise = Pending, closed = False, lines_handled = 0\<rparr> evs"


text \<open>
  \<open>getFields\<close>: the promise it returns, once the template has been read to its end, and
  the calls it makes. \<open>null\<close> is \<open>None\<close>. No listener is registered for \<open>close\<close>.
\<close>

definition getFields :: "env \<Rightarrow> args \<Rightarrow> string list option outcome \<times> action list" where
  "getFields env a =
     (case template a of
        None \<Rightarrow> (Resolved None, [])
      | Some (ReadStream p) \<Rightarrow>
          (promise (rl_run (delimiter a) (rl_events env p)), [CreateInterface (ReadStream p)]))"

definition resolveCredentials :: "env \<Rightarrow> args \<Rightarrow> credentials outcome \<times> action list" where
  "resolveCredentials env a =
     (if truthy (accessToken a) then (Resolved [], [])
      else (getCredentials env (projectKey a), [GetCredentials (projectKey a)]))"

subsection \<open>The start-up chain\<close>

text \<open>
  \<open>Promise.all\<close> of two promises: rejected as soon as one of them is, with the reason of
  the one that rejects first (\<open>first_wins\<close>: the first of the two); fulfilled with both
  values once both are fulfilled; pending otherwise.
\<close>

fun promise_all :: "bool \<Rightarrow> 'a outcome \<Rightarrow> 'b outcome \<Rightarrow> ('a \<times> 'b) outcome" where
  "promise_all first_wins (Rejected e) (Rejected e') = Rejected (if first_wins then e else e')"
| "promise_all first_wins (Rejected e) (Resolved w) = Rejected e"
| "promise_all first_wins (Rejected e) Pending = Rejected e"
| "promise_all first_wins (Resolved v) (Rejected e') = Rejected e'"
| "promise_all first_wins Pending (Rejected e') = Rejected e'"
| "promise_all first_wins (Resolved v) (Resolved w) = Resolved (v, w)"
| "promise_all first_wins (Resolved v) Pending = Pending"
| "promise_all first_wins Pending (Resolved w) = Pending"
| "promise_all first_wins Pending Pending = Pending"

text \<open>
  \<open>p.then(f)\<close> and \<open>p.catch(h)\<close>, the callbacks passing the process state along: \<open>f\<close>
  runs on a fulfilled promise only, \<open>h\<close> on a rejected one only.
\<close>

fun then_promise ::
  "'a outcome \<times> process \<Rightarrow> ('a \<Rightarrow> process \<Rightarrow> 'b outcome \<times> process) \<Rightarrow> 'b outcome \<times> process"
where
  "then_promise (Resolved v, s) f = f v s"
| "then_promise (Rejected e, s) f = (Rejected e, s)"
| "then_promise (Pending, s) f = (Pending, s)"

fun catch_promise ::
  "'a outcome \<times> process \<Rightarrow> (failure \<Rightarrow> process \<Rightarrow> process) \<Rightarrow> process"
where
  "catch_promise (Rejected e, s) h = h e s"
| "catch_promise (Resolved v, s) h = s"
| "catch_promise (Pending, s) h = s"

definition build_options :: "args \<Rightarrow> credentials \<Rightarrow> string list option \<Rightarrow> constructorOptions" where
  "build_options a credentials field_list =
     \<lparr>co_apiConfig = \<lparr>api_host = authUrl a, api_apiUrl = apiUrl a,
                       api_projectKey = projectKey a, api_credentials = credentials\<rparr>,
      co_accessToken = accessToken a,
      co_batchSize = batchSize a,
      co_delimiter = delimiter a,
      co_exportFormat = exportFormat a,
      co_language = language a,
      co_multiValueDelimiter = multiValueDelimiter a,
      co_predicate = where_predicate a,
      co_fields = field_list\<rparr>"

text \<open>
  The first \<open>then\<close> callback: build the options and construct the export; a throw of the
  constructor rejects the promise. The export object is known by its options.
\<close>

definition new_DiscountCodeExport ::
  "env \<Rightarrow> args \<Rightarrow> credentials \<times> string list option \<Rightarrow> process
     \<Rightarrow> constructorOptions outcome \<times> process"
where
  "new_DiscountCodeExport env a r s =
     (let opts = build_options a (fst r) (snd r);
          s1 = s\<lparr>trace := trace s @ [NewDiscountCodeExport opts]\<rparr>
      in case construct env opts of
           Some e \<Rightarrow> (Rejected e, s1)
         | None \<Rightarrow> (Resolved opts, s1))"

text \<open>
  The second \<open>then\<close> callback, \<open>discountCodeExport.run(args.output)\<close>. Each \<open>error\<close> event
  of the output stream goes to the listener registered by
  \<open>args.output.on('error', errorHandler)\<close>.
\<close>

definition on_output_error :: "env \<Rightarrow> process \<Rightarrow> failure \<Rightarrow> process" where
  "on_output_error env s e = errorHandler env e (s\<lparr>trace := trace s @ [OutputError e]\<rparr>)"

definition run_export ::
  "env \<Rightarrow> args \<Rightarrow> constructorOptions \<Rightarrow> process \<Rightarrow> unit outcome \<times> process"
where
  "run_export env a opts s =
     (let r = run env opts (output_stream a);
          s1 = s\<lparr>trace := trace s @ [RunExport opts (output_stream a)]\<rparr>
      in (returned r, foldl (on_output_error env) s1 (emitted r)))"

text \<open>
  The promise chain up to the \<open>catch\<close>: both resolvers are started (credentials first,
  neither waits for the other), joined by \<open>Promise.all\<close>, and followed by the two
  \<open>then\<close> callbacks.
\<close>

definition chain :: "env \<Rightarrow> args \<Rightarrow> process \<Rightarrow> unit outcome \<times> process" where
  "chain env a s =
     (let s1 = s\<lparr>trace := trace s @ snd (resolveCredentials env a) @ snd (getFields env a)\<rparr>
      in then_promise
           (then_promise
              (promise_all (credentials_first env)
                 (fst (resolveCredentials env a)) (fst (getFields env a)), s1)
              (new_DiscountCodeExport env a))
           (run_export env a))"

text \<open>
  The body of the module after option parsing: assign \<open>npmlog.stream\<close> (the log file
  when the data goes to \<open>process.stdout\<close>, \<open>process.stdout\<close> otherwise), then run the
  chain with \<open>errorHandler\<close> as its \<open>catch\<close>.
\<close>

definition log_stream :: "args \<Rightarrow> stream" where
  "log_stream a =
     (if output_stream a = ProcessStdout then WriteStream (logFile a) else ProcessStdout)"

definition main :: "env \<Rightarrow> args \<Rightarrow> process \<Rightarrow> process" where
  "main env a s =
     (let s1 = s\<lparr>npmlog_stream := Some (log_stream a)\<rparr>
      in catch_promise (chain env a s1) (errorHandler env))"

definition initial :: "argv \<Rightarrow> process" where
  "initial argv =
     \<lparr>exitCode = None, stderr = [], npmlog_level = coerce_logLevel argv,
      npmlog_stream = None, trace = []\<rparr>"

text \<open>
  The whole module. When yargs refuses the command line it prints its message and ends
  the process with status 1; nothing after the option table runs: that is \<open>Inl\<close>.
\<close>

definition program :: "env \<Rightarrow> argv \<Rightarrow> usage_error + process" where
  "program env argv =
     (case parse_args env argv of
        Inl e \<Rightarrow> Inl e
      | Inr a \<Rightarrow> Inr (main env a (initial argv)))"

definition exit_status :: "usage_error + process \<Rightarrow> nat" where
  "exit_status r =
     (case r of
        Inl e \<Rightarrow> 1
      | Inr s \<Rightarrow> (case exitCode s of None \<Rightarrow> 0 | Some c \<Rightarrow> c))"

subsection \<open>Reading a trace\<close>

text \<open>The failures passed to \<open>errorHandler\<close>, and the \<open>error\<close> events of the output stream.\<close>

fun handled :: "action list \<Rightarrow> failure list" where
  "handled [] = []"
| "handled (ErrorHandler e # xs) = e # handled xs"
| "handled (x # xs) = handled xs"

fun output_errors :: "action list \<Rightarrow> failure list" where
  "output_errors [] = []"
| "output_errors (OutputError e # xs) = e # output_errors xs"
| "output_errors (x # xs) = output_errors xs"

fun is_export_action :: "action \<Rightarrow> bool" where
  "is_export_action (NewDiscountCodeExport opts) = True"
| "is_export_action (RunExport opts out) = True"
| "is_export_action x = False"

fun is_GetCredentials :: "action \<Rightarrow> bool" where
  "is_GetCredentials (GetCredentials k) = True"
| "is_GetCredentials x = False"

text \<open>The reason of a rejected promise, as a list: empty unless the promise is rejected.\<close>

fun rejection :: "'a outcome \<Rightarrow> failure list" where
  "rejection (Rejected e) = [e]"
| "rejection (Resolved v) = []"
| "rejection Pending = []"

text \<open>
  The specification's reading of credentials that wrap a token: some property of the
  object holds it.
\<close>

definition wraps_token :: "credentials \<Rightarrow> jsval \<Rightarrow> bool" where
  "wraps_token c tok = list_ex (\<lambda>kv. snd kv = tok) c"

text \<open>
  The file a stream writes to, by name: \<open>process.stdout\<close> is the file the operating
  system names \<open>/dev/stdout\<close>. Two streams with one sink write into one file; two
  different names need not be two different files.
\<close>

fun sink :: "stream \<Rightarrow> jsval" where
  "sink ProcessStdout = JStr ''/dev/stdout''"
| "sink (WriteStream p) = p"

text \<open>The errors of a failure, one by one, and the line \<open>logError\<close> writes for each.\<close>

fun errors_of :: "failure \<Rightarrow> error list" where
  "errors_of (One e) = [e]"
| "errors_of (Many es) = es"

definition report_line :: "env \<Rightarrow> jsval \<Rightarrow> error \<Rightarrow> string" where
  "report_line env level e =
     ''ERR: '' @ (if level = JStr ''verbose'' then render env e else message_or_error e)"

subsection \<open>A sample run\<close>

text \<open>
  A project \<open>my-project\<close> with a template \<open>template.csv\<close> of two lines, a credential
  exchange that succeeds and an export that runs without error.
\<close>

definition sample_env :: env where
  "sample_env =
     \<lparr>existsSync = (\<lambda>v. v = JStr ''template.csv''),
      rl_events = (\<lambda>p. if p = ''template.csv''
                        then [Line ''id,name,code'', Line ''1,Summer,SUN10''] else []),
      getCredentials = (\<lambda>k. Resolved [(''clientId'', JStr ''id''), (''clientSecret'', JStr ''secret'')]),
      construct = (\<lambda>opts. None),
      run = (\<lambda>opts out. \<lparr>emitted = [], returned = Resolved ()\<rparr>),
      render = (\<lambda>e. ''rendered''),
      credentials_first = True\<rparr>"

definition sample_argv :: argv where
  "sample_argv = [''projectKey'' \<mapsto> JStr ''my-project'', ''template'' \<mapsto> JStr ''template.csv'']"

text \<open>The options yargs makes of the sample command line.\<close>

definition sample_args :: args where
  "sample_args =
     \<lparr>template = Some (ReadStream ''template.csv''),
      language = JStr ''en'',
      output_stream = ProcessStdout,
      apiUrl = JStr ''https://api.europe-west1.gcp.commercetools.com'',
      authUrl = JStr ''https://auth.europe-west1.gcp.commercetools.com'',
      delimiter = JStr '','',
      multiValueDelimiter = JStr '';'',
      accessToken = None,
      projectKey = JStr ''my-project'',
      where_predicate = None,
      exportFormat = JStr ''json'',
      batchSize = JNum 500,
      logFile = JStr ''discount-code-export.log''\<rparr>"

text \<open>The options the sample run hands to the constructor.\<close>

definition sample_options :: constructorOptions where
  "sample_options =
     \<lparr>co_apiConfig =
        \<lparr>api_host = JStr ''https://auth.europe-west1.gcp.commercetools.com'',
         api_apiUrl = JStr ''https://api.europe-west1.gcp.commercetools.com'',
         api_projectKey = JStr ''my-project'',
         api_credentials = [(''clientId'', JStr ''id''), (''clientSecret'', JStr ''secret'')]\<rparr>,
      co_accessToken = None,
      co_batchSize = JNum 500,
      co_delimiter = JStr '','',
      co_exportFormat = JStr ''json'',
      co_language = JStr ''en'',
      co_multiValueDelimiter = JStr '';'',
      co_predicate = None,
      co_fields = Some [''id'', ''name'', ''code'']\<rparr>"

section \<open>Properties\<close>

subsection \<open>Splitting a line\<close>

text \<open>
  Joining the pieces of a split with the separator gives the string back, for every
  non-empty separator.
\<close>

lemma split_from_not_Nil: "split_from sep acc s \<noteq> []"
  by (induction sep acc s rule: split_from.induct) simp_all

lemma join_js_Cons: "xs \<noteq> [] \<Longrightarrow> join_js sep (x # xs) = x @ sep @ join_js sep xs"
  by (cases xs) simp_all

lemma join_split_from: "sep \<noteq> [] \<Longrightarrow> join_js sep (split_from sep acc s) = rev acc @ s"
proof (induction sep acc s rule: split_from.induct)
  case (1 sep acc)
  then show ?case by simp
next
  case (2 sep acc c cs)
  show ?case
  proof (cases "take (length sep) (c # cs) = sep")
    case True
    then have "sep @ drop (length sep) (c # cs) = c # cs"
      by (metis append_take_drop_id)
    then show ?thesis
      using 2 True by (simp add: join_js_Cons split_from_not_Nil)
  next
    case False
    then show ?thesis
      using 2 by simp
  qed
qed

lemma join_split_js: "sep \<noteq> [] \<Longrightarrow> join_js sep (split_js s sep) = s"
  by (simp add: split_js_def join_split_from)

subsection \<open>The readline listeners\<close>



lemma emit_settled: "promise s \<noteq> Pending \<Longrightarrow> promise (emit d s ev) = promise s"
  by (cases ev; cases "promise s") simp_all

lemma foldl_emit_settled:
  "promise s \<noteq> Pending \<Longrightarrow> promise (foldl (emit d) s evs) = promise s"
  by (induction evs arbitrary: s) (simp_all add: emit_settled)


lemma rl_run_Nil: "promise (rl_run d []) = Pending"
  by (simp add: rl_run_def)

lemma rl_run_Line:
  "promise (rl_run d (Line l # rest)) = Resolved (Some (split_js l (toString d)))"
  by (simp add: rl_run_def foldl_emit_settled)


lemma rl_run_RlError: "promise (rl_run d (RlError e # rest)) = Rejected (One e)"
  by (simp add: rl_run_def foldl_emit_settled)


subsection \<open>What the error handler changes\<close>

lemma logError_eq:
  "logError env e s = s\<lparr>stderr := stderr s @ [report_line env (npmlog_level s) e]\<rparr>"
  by (simp add: logError_def report_line_def)

lemma foldl_logError_eq:
  "foldl (\<lambda>s e. logError env e s) s es =
     s\<lparr>stderr := stderr s @ map (report_line env (npmlog_level s)) es\<rparr>"
  by (induction es arbitrary: s) (simp_all add: logError_eq)

lemma errorHandler_eq:
  "errorHandler env f s =
     s\<lparr>trace := trace s @ [ErrorHandler f],
       stderr := stderr s @ map (report_line env (npmlog_level s)) (errors_of f),
       exitCode := Some 1\<rparr>"
proof (cases f)
  case (One e)
  then show ?thesis by (simp add: errorHandler_def Let_def logError_eq)
next
  case (Many es)
  then show ?thesis by (simp add: errorHandler_def Let_def foldl_logError_eq)
qed

lemma on_output_error_eq:
  "on_output_error env s f =
     s\<lparr>trace := trace s @ [OutputError f, ErrorHandler f],
       stderr := stderr s @ map (report_line env (npmlog_level s)) (errors_of f),
       exitCode := Some 1\<rparr>"
  by (simp add: on_output_error_def errorHandler_eq)

lemma foldl_on_output_error_eq:
  "foldl (on_output_error env) s fs =
     s\<lparr>trace := trace s @ concat (map (\<lambda>f. [OutputError f, ErrorHandler f]) fs),
       stderr := stderr s @ map (report_line env (npmlog_level s)) (concat (map errors_of fs)),
       exitCode := (if fs = [] then exitCode s else Some 1)\<rparr>"
  by (induction fs arbitrary: s) (simp_all add: on_output_error_eq)

lemma catch_promise_eq:
  "catch_promise (p, s) (errorHandler env) =
     s\<lparr>trace := trace s @ map ErrorHandler (rejection p),
       stderr := stderr s @ map (report_line env (npmlog_level s)) (concat (map errors_of (rejection p))),
       exitCode := (if rejection p = [] then exitCode s else Some 1)\<rparr>"
  by (cases p) (simp_all add: errorHandler_eq)

subsection \<open>Actions of a trace\<close>

lemma handled_append: "handled (xs @ ys) = handled xs @ handled ys"
  by (induction xs rule: handled.induct) simp_all

lemma output_errors_append: "output_errors (xs @ ys) = output_errors xs @ output_errors ys"
  by (induction xs rule: output_errors.induct) simp_all

lemma handled_output_events:
  "handled (concat (map (\<lambda>f. [OutputError f, ErrorHandler f]) fs)) = fs"
  by (induction fs) simp_all

lemma output_errors_output_events:
  "output_errors (concat (map (\<lambda>f. [OutputError f, ErrorHandler f]) fs)) = fs"
  by (induction fs) simp_all

lemma handled_handlers:
  "handled (map ErrorHandler fs) = fs" "output_errors (map ErrorHandler fs) = []"
  by (induction fs) simp_all

lemma snd_resolveCredentials_cases:
  "snd (resolveCredentials env a) = [] \<or> snd (resolveCredentials env a) = [GetCredentials (projectKey a)]"
  by (simp add: resolveCredentials_def)

lemma snd_getFields_cases:
  "snd (getFields env a) = [] \<or> (\<exists>p. snd (getFields env a) = [CreateInterface p])"
  by (simp add: getFields_def split: option.splits read_stream.splits)

lemma handled_starts:
  "handled (snd (resolveCredentials env a)) = []" "handled (snd (getFields env a)) = []"
  "output_errors (snd (resolveCredentials env a)) = []" "output_errors (snd (getFields env a)) = []"
  using snd_resolveCredentials_cases [of env a] snd_getFields_cases [of env a]
  by auto

lemma export_actions_resolvers:
  "\<not> list_ex is_export_action (snd (resolveCredentials env a) @ snd (getFields env a))"
  using snd_resolveCredentials_cases [of env a] snd_getFields_cases [of env a]
  by auto

lemma export_actions_output_events:
  "\<not> list_ex is_export_action (concat (map (\<lambda>f. [OutputError f, ErrorHandler f]) fs))"
  by (induction fs) simp_all

lemma export_actions_handlers: "\<not> list_ex is_export_action (map ErrorHandler fs)"
  by (induction fs) simp_all

lemma GetCredentials_getFields: "\<not> list_ex is_GetCredentials (snd (getFields env a))"
  using snd_getFields_cases [of env a] by auto

lemma GetCredentials_output_events:
  "\<not> list_ex is_GetCredentials (concat (map (\<lambda>f. [OutputError f, ErrorHandler f]) fs))"
  by (induction fs) simp_all

lemma GetCredentials_handlers: "\<not> list_ex is_GetCredentials (map ErrorHandler fs)"
  by (induction fs) simp_all

lemma RunExport_resolvers:
  "RunExport opts out \<notin> set (snd (resolveCredentials env a) @ snd (getFields env a))"
  using snd_resolveCredentials_cases [of env a] snd_getFields_cases [of env a]
  by auto

lemma RunExport_output_events:
  "RunExport opts out \<notin> set (concat (map (\<lambda>f. [OutputError f, ErrorHandler f]) fs))"
  by (induction fs) simp_all

lemma RunExport_handlers: "RunExport opts out \<notin> set (map ErrorHandler fs)"
  by (induction fs) simp_all

subsection \<open>The chain, stage by stage\<close>

lemma promise_all_Resolved:
  "promise_all b p q = Resolved r \<longleftrightarrow> p = Resolved (fst r) \<and> q = Resolved (snd r)"
  by (cases p; cases q) auto

lemma promise_all_Pending:
  "promise_all b p q = Pending \<longleftrightarrow>
     (p = Pending \<and> (\<forall>e. q \<noteq> Rejected e)) \<or> (q = Pending \<and> (\<forall>e. p \<noteq> Rejected e))"
  by (cases p; cases q) auto

lemma chain_Pending:
  assumes "promise_all (credentials_first env) (fst (resolveCredentials env a)) (fst (getFields env a)) = Pending"
  shows "chain env a s =
    (Pending, s\<lparr>trace := trace s @ snd (resolveCredentials env a) @ snd (getFields env a)\<rparr>)"
  using assms by (simp add: chain_def Let_def)

lemma chain_Rejected:
  assumes "promise_all (credentials_first env) (fst (resolveCredentials env a)) (fst (getFields env a)) = Rejected e"
  shows "chain env a s =
    (Rejected e, s\<lparr>trace := trace s @ snd (resolveCredentials env a) @ snd (getFields env a)\<rparr>)"
  using assms by (simp add: chain_def Let_def)

lemma chain_construct_throws:
  assumes "promise_all (credentials_first env) (fst (resolveCredentials env a)) (fst (getFields env a)) = Resolved r"
    and "construct env (build_options a (fst r) (snd r)) = Some e"
  shows "chain env a s =
    (Rejected e, s\<lparr>trace := trace s @ snd (resolveCredentials env a) @ snd (getFields env a)
        @ [NewDiscountCodeExport (build_options a (fst r) (snd r))]\<rparr>)"
  using assms by (simp add: chain_def Let_def new_DiscountCodeExport_def)

lemma chain_runs:
  assumes "promise_all (credentials_first env) (fst (resolveCredentials env a)) (fst (getFields env a)) = Resolved r"
    and "construct env (build_options a (fst r) (snd r)) = None"
  shows "chain env a s =
    (returned (run env (build_options a (fst r) (snd r)) (output_stream a)),
     s\<lparr>trace := trace s @ snd (resolveCredentials env a) @ snd (getFields env a)
          @ [NewDiscountCodeExport (build_options a (fst r) (snd r)),
             RunExport (build_options a (fst r) (snd r)) (output_stream a)]
          @ concat (map (\<lambda>f. [OutputError f, ErrorHandler f])
              (emitted (run env (build_options a (fst r) (snd r)) (output_stream a)))),
        stderr := stderr s @ map (report_line env (npmlog_level s))
          (concat (map errors_of (emitted (run env (build_options a (fst r) (snd r)) (output_stream a))))),
        exitCode := (if emitted (run env (build_options a (fst r) (snd r)) (output_stream a)) = []
                     then exitCode s else Some 1)\<rparr>)"
  using assms
  by (simp add: chain_def Let_def new_DiscountCodeExport_def run_export_def foldl_on_output_error_eq)

text \<open>
  The four ways the module body can go: the join stays pending, the join is rejected,
  the constructor throws, the export is run. Each gives the final process state.
\<close>

lemma main_cases [case_names Pending Rejected Throws Runs]:
  obtains
    (Pending)
      "promise_all (credentials_first env) (fst (resolveCredentials env a))
         (fst (getFields env a)) = Pending"
      "fst (chain env a s) = Pending"
      "main env a s = s\<lparr>npmlog_stream := Some (log_stream a),
           trace := trace s @ snd (resolveCredentials env a) @ snd (getFields env a)\<rparr>"
  | (Rejected) e where
      "promise_all (credentials_first env) (fst (resolveCredentials env a))
         (fst (getFields env a)) = Rejected e"
      "fst (chain env a s) = Rejected e"
      "main env a s =
         s\<lparr>npmlog_stream := Some (log_stream a),
           trace := trace s @ snd (resolveCredentials env a) @ snd (getFields env a)
             @ [ErrorHandler e],
           stderr := stderr s @ map (report_line env (npmlog_level s)) (errors_of e),
           exitCode := Some 1\<rparr>"
  | (Throws) c f e where
      "fst (resolveCredentials env a) = Resolved c" "fst (getFields env a) = Resolved f"
      "construct env (build_options a c f) = Some e"
      "fst (chain env a s) = Rejected e"
      "main env a s =
         s\<lparr>npmlog_stream := Some (log_stream a),
           trace := trace s @ snd (resolveCredentials env a) @ snd (getFields env a)
             @ [NewDiscountCodeExport (build_options a c f), ErrorHandler e],
           stderr := stderr s @ map (report_line env (npmlog_level s)) (errors_of e),
           exitCode := Some 1\<rparr>"
  | (Runs) c f r where
      "fst (resolveCredentials env a) = Resolved c" "fst (getFields env a) = Resolved f"
      "construct env (build_options a c f) = None"
      "r = run env (build_options a c f) (output_stream a)"
      "fst (chain env a s) = returned r"
      "main env a s =
         s\<lparr>npmlog_stream := Some (log_stream a),
           trace := trace s @ snd (resolveCredentials env a) @ snd (getFields env a)
             @ [NewDiscountCodeExport (build_options a c f),
                RunExport (build_options a c f) (output_stream a)]
             @ concat (map (\<lambda>f. [OutputError f, ErrorHandler f]) (emitted r))
             @ map ErrorHandler (rejection (returned r)),
           stderr := stderr s @ map (report_line env (npmlog_level s))
             (concat (map errors_of (emitted r @ rejection (returned r)))),
           exitCode := (if emitted r @ rejection (returned r) = [] then exitCode s else Some 1)\<rparr>"
proof (cases "promise_all (credentials_first env) (fst (resolveCredentials env a))
         (fst (getFields env a))")
  case Pending
  note pa = this
  show ?thesis
  proof (rule that(1) [OF pa])
    show "fst (chain env a s) = Pending"
      by (simp add: chain_Pending [OF pa])
    show "main env a s = s\<lparr>npmlog_stream := Some (log_stream a),
           trace := trace s @ snd (resolveCredentials env a) @ snd (getFields env a)\<rparr>"
      by (simp add: main_def Let_def chain_Pending [OF pa])
  qed
next
  case (Rejected e)
  note pa = this
  show ?thesis
  proof (rule that(2) [OF pa])
    show "fst (chain env a s) = Rejected e"
      by (simp add: chain_Rejected [OF pa])
    show "main env a s =
         s\<lparr>npmlog_stream := Some (log_stream a),
           trace := trace s @ snd (resolveCredentials env a) @ snd (getFields env a)
             @ [ErrorHandler e],
           stderr := stderr s @ map (report_line env (npmlog_level s)) (errors_of e),
           exitCode := Some 1\<rparr>"
      by (simp add: main_def Let_def chain_Rejected [OF pa] errorHandler_eq)
  qed
next
  case (Resolved p)
  note pa = this
  then have c: "fst (resolveCredentials env a) = Resolved (fst p)"
    and f: "fst (getFields env a) = Resolved (snd p)"
    by (simp_all add: promise_all_Resolved)
  show ?thesis
  proof (cases "construct env (build_options a (fst p) (snd p))")
    case (Some e)
    note th = this
    show ?thesis
    proof (rule that(3) [OF c f th])
      show "fst (chain env a s) = Rejected e"
        by (simp add: chain_construct_throws [OF pa th])
      show "main env a s =
         s\<lparr>npmlog_stream := Some (log_stream a),
           trace := trace s @ snd (resolveCredentials env a) @ snd (getFields env a)
             @ [NewDiscountCodeExport (build_options a (fst p) (snd p)), ErrorHandler e],
           stderr := stderr s @ map (report_line env (npmlog_level s)) (errors_of e),
           exitCode := Some 1\<rparr>"
        by (simp add: main_def Let_def chain_construct_throws [OF pa th] errorHandler_eq)
    qed
  next
    case None
    note ok = this
    show ?thesis
    proof (rule that(4) [OF c f ok refl])
      show "fst (chain env a s) =
          returned (run env (build_options a (fst p) (snd p)) (output_stream a))"
        by (simp add: chain_runs [OF pa ok])
      show "main env a s =
         s\<lparr>npmlog_stream := Some (log_stream a),
           trace := trace s @ snd (resolveCredentials env a) @ snd (getFields env a)
             @ [NewDiscountCodeExport (build_options a (fst p) (snd p)),
                RunExport (build_options a (fst p) (snd p)) (output_stream a)]
             @ concat (map (\<lambda>f. [OutputError f, ErrorHandler f])
                 (emitted (run env (build_options a (fst p) (snd p)) (output_stream a))))
             @ map ErrorHandler
                 (rejection (returned (run env (build_options a (fst p) (snd p)) (output_stream a)))),
           stderr := stderr s @ map (report_line env (npmlog_level s))
             (concat (map errors_of
                (emitted (run env (build_options a (fst p) (snd p)) (output_stream a))
                 @ rejection (returned (run env (build_options a (fst p) (snd p)) (output_stream a)))))),
           exitCode :=
             (if emitted (run env (build_options a (fst p) (snd p)) (output_stream a))
                 @ rejection (returned (run env (build_options a (fst p) (snd p)) (output_stream a))) = []
              then exitCode s else Some 1)\<rparr>"
        by (simp add: main_def Let_def chain_runs [OF pa ok] catch_promise_eq)
    qed
  qed
qed

lemma main_eq_export:
  assumes "fst (resolveCredentials env a) = Resolved c" and "fst (getFields env a) = Resolved f"
  shows "\<exists>rest. trace (main env a s) =
     trace s @ snd (resolveCredentials env a) @ snd (getFields env a)
       @ NewDiscountCodeExport (build_options a c f) # rest"
  using assms by (cases env a s rule: main_cases) simp_all

lemma trace_main_starts:
  "take (length (snd (resolveCredentials env a) @ snd (getFields env a)))
     (trace (main env a (initial argv))) = snd (resolveCredentials env a) @ snd (getFields env a)"
  by (cases env a "initial argv" rule: main_cases) (simp_all add: initial_def)

lemma npmlog_stream_main: "npmlog_stream (main env a s) = Some (log_stream a)"
  by (cases env a s rule: main_cases) simp_all

lemma RunExport_in_main:
  assumes "RunExport opts out \<in> set (trace (main env a (initial argv)))"
  shows "out = output_stream a"
proof (cases env a "initial argv" rule: main_cases)
  case Pending
  then show ?thesis
    using assms RunExport_resolvers [of opts out env a] by (simp add: initial_def)
next
  case (Rejected e)
  then show ?thesis
    using assms RunExport_resolvers [of opts out env a] by (simp add: initial_def)
next
  case (Throws c f e)
  then show ?thesis
    using assms RunExport_resolvers [of opts out env a] by (simp add: initial_def)
next
  case (Runs c f r)
  then show ?thesis
    using assms RunExport_resolvers [of opts out env a]
      RunExport_output_events [of opts out "emitted r"]
      RunExport_handlers [of opts out "rejection (returned r)"]
    by (auto simp: initial_def)
qed

lemma NewDiscountCodeExport_in_main:
  assumes "NewDiscountCodeExport opts \<in> set (trace (main env a (initial argv)))"
  shows "\<exists>c f. fst (resolveCredentials env a) = Resolved c \<and> fst (getFields env a) = Resolved f
           \<and> opts = build_options a c f"
proof -
  have s: "NewDiscountCodeExport opts \<notin> set (snd (resolveCredentials env a) @ snd (getFields env a))"
    using snd_resolveCredentials_cases [of env a] snd_getFields_cases [of env a] by auto
  have e: "NewDiscountCodeExport opts
      \<notin> set (concat (map (\<lambda>f. [OutputError f, ErrorHandler f]) fs))" for fs
    by (induction fs) simp_all
  have h: "NewDiscountCodeExport opts \<notin> set (map ErrorHandler fs)" for fs
    by (induction fs) simp_all
  show ?thesis
  proof (cases env a "initial argv" rule: main_cases)
    case Pending
    then show ?thesis using assms s by (simp add: initial_def)
  next
    case (Rejected e)
    then show ?thesis using assms s by (simp add: initial_def)
  next
    case (Throws c f e)
    then show ?thesis using assms s by (auto simp: initial_def)
  next
    case (Runs c f r)
    then show ?thesis
      using assms s e [of "emitted r"] h [of "rejection (returned r)"]
      by (auto simp: initial_def)
  qed
qed

lemma GetCredentials_in_main:
  "list_ex is_GetCredentials (trace (main env a (initial argv))) =
     list_ex is_GetCredentials (snd (resolveCredentials env a))"
  by (cases env a "initial argv" rule: main_cases)
     (simp_all add: initial_def GetCredentials_getFields GetCredentials_output_events
        GetCredentials_handlers)

lemma export_actions_in_main:
  "list_ex is_export_action (trace (main env a (initial argv))) =
     (\<exists>c f. fst (resolveCredentials env a) = Resolved c \<and> fst (getFields env a) = Resolved f)"
proof (cases env a "initial argv" rule: main_cases)
  case Pending
  then show ?thesis
    using export_actions_resolvers [of env a]
    by (auto simp: initial_def promise_all_Pending)
next
  case (Rejected e)
  then have "\<not> (\<exists>c f. fst (resolveCredentials env a) = Resolved c
      \<and> fst (getFields env a) = Resolved f)"
    by auto
  then show ?thesis
    using Rejected export_actions_resolvers [of env a] by (simp add: initial_def)
next
  case (Throws c f e)
  then show ?thesis by (simp add: initial_def)
next
  case (Runs c f r)
  then show ?thesis by (simp add: initial_def)
qed

subsection \<open>The sample run\<close>

lemma parse_sample: "parse_args sample_env sample_argv = Inr sample_args"
  by (simp add: parse_args_def sample_env_def sample_argv_def sample_args_def
      coerce_template_def coerce_output_def with_default_def)

lemma parse_sample_any_events:
  "parse_args (sample_env\<lparr>rl_events := r\<rparr>) sample_argv = Inr sample_args"
  by (simp add: parse_args_def sample_env_def sample_argv_def sample_args_def
      coerce_template_def coerce_output_def with_default_def)

lemma parse_sample_no_template:
  "parse_args sample_env (sample_argv(''template'' := None)) = Inr (sample_args\<lparr>template := None\<rparr>)"
  by (simp add: parse_args_def sample_env_def sample_argv_def sample_args_def
      coerce_output_def with_default_def)

lemma sample_credentials:
  "resolveCredentials sample_env (sample_args\<lparr>template := t\<rparr>) =
     (Resolved [(''clientId'', JStr ''id''), (''clientSecret'', JStr ''secret'')],
      [GetCredentials (JStr ''my-project'')])"
  by (simp add: resolveCredentials_def sample_args_def sample_env_def)

lemma sample_fields:
  "getFields sample_env sample_args =
     (Resolved (Some [''id'', ''name'', ''code'']), [CreateInterface (ReadStream ''template.csv'')])"
  by (simp add: getFields_def sample_args_def sample_env_def rl_run_Line split_js_def)

lemma sample_initial:
  "initial sample_argv =
     \<lparr>exitCode = None, stderr = [], npmlog_level = JStr ''info'',
      npmlog_stream = None, trace = []\<rparr>"
  by (simp add: initial_def coerce_logLevel_def with_default_def sample_argv_def)

lemma sample_build_options:
  "build_options sample_args [(''clientId'', JStr ''id''), (''clientSecret'', JStr ''secret'')]
     (Some [''id'', ''name'', ''code'']) = sample_options"
  by (simp add: build_options_def sample_args_def sample_options_def)

lemma sample_main:
  "main sample_env sample_args (initial sample_argv) =
     \<lparr>exitCode = None, stderr = [], npmlog_level = JStr ''info'',
      npmlog_stream = Some (WriteStream (JStr ''discount-code-export.log'')),
      trace = [GetCredentials (JStr ''my-project''), CreateInterface (ReadStream ''template.csv''),
               NewDiscountCodeExport sample_options, RunExport sample_options ProcessStdout]\<rparr>"
proof -
  have c: "resolveCredentials sample_env sample_args =
     (Resolved [(''clientId'', JStr ''id''), (''clientSecret'', JStr ''secret'')],
      [GetCredentials (JStr ''my-project'')])"
    using sample_credentials [of "template sample_args"] by simp
  have out: "output_stream sample_args = ProcessStdout"
    and log: "logFile sample_args = JStr ''discount-code-export.log''"
    by (simp_all add: sample_args_def)
  have k: "construct sample_env sample_options = None"
    and r: "run sample_env sample_options ProcessStdout = \<lparr>emitted = [], returned = Resolved ()\<rparr>"
    by (simp_all add: sample_env_def)
  show ?thesis
    by (simp add: main_def log_stream_def Let_def chain_def c sample_fields sample_initial
        new_DiscountCodeExport_def run_export_def sample_build_options k r out log)
qed

lemmas sample_run_defs =
  main_def log_stream_def chain_def resolveCredentials_def getFields_def new_DiscountCodeExport_def
  run_export_def build_options_def initial_def coerce_logLevel_def with_default_def
  sample_env_def sample_args_def sample_argv_def rl_run_Line rl_run_Nil rl_run_RlError
  split_js_def errorHandler_eq on_output_error_eq

subsection \<open>Option parsing\<close>


lemma parse_args_Inr_template:
  "parse_args env argv = Inr a \<Longrightarrow> argv ''template'' = None \<Longrightarrow> template a = None"
  by (auto simp: parse_args_def Let_def split: option.splits sum.splits if_splits)

lemma parse_args_batchSize:
  "parse_args env (argv(''batchSize'' \<mapsto> b)) =
     (case parse_args env argv of Inl e \<Rightarrow> Inl e | Inr a \<Rightarrow> Inr (a\<lparr>batchSize := b\<rparr>))"
  by (simp add: parse_args_def Let_def with_default_def split: option.splits sum.splits)



text \<open>
  C6, as amended. The option table has no check of \<open>batchSize\<close>: whatever value is
  supplied, the command line is accepted exactly when it is accepted without it, the
  value is taken unchanged, and it reaches the options of the constructor unchanged.
\<close>

theorem batchSize_not_checked:
  "isl (parse_args env (argv(''batchSize'' \<mapsto> b))) = isl (parse_args env argv)
   \<and> (\<forall>a. parse_args env (argv(''batchSize'' \<mapsto> b)) = Inr a \<longrightarrow>
         batchSize a = b \<and> (\<forall>c f. co_batchSize (build_options a c f) = b))"
  by (cases "parse_args env argv") (simp_all add: parse_args_batchSize build_options_def)

text \<open>The sample command line with \<open>--batchSize -5\<close> is accepted, with batch size -5.\<close>

theorem batchSize_not_checked_witness:
  "\<not> isl (parse_args sample_env (sample_argv(''batchSize'' \<mapsto> JNum (- 5))))
   \<and> parse_args sample_env (sample_argv(''batchSize'' \<mapsto> JNum (- 5))) =
       Inr (sample_args\<lparr>batchSize := JNum (- 5)\<rparr>)
   \<and> co_batchSize (build_options (sample_args\<lparr>batchSize := JNum (- 5)\<rparr>) [] None) = JNum (- 5)"
proof -
  have p: "parse_args sample_env (sample_argv(''batchSize'' \<mapsto> JNum (- 5))) =
       Inr (sample_args\<lparr>batchSize := JNum (- 5)\<rparr>)"
    by (simp add: parse_args_batchSize parse_sample)
  show ?thesis
    using batchSize_not_checked [of sample_env sample_argv "JNum (- 5)"] p
    by (simp add: parse_sample)
qed

text \<open>
  C6 as stated fails at \<open>--batchSize 0\<close>: the sample command line is accepted, the
  credential exchange is called, the template is read, the export is constructed and run
  with batch size 0, and the process ends with status 0.
\<close>

theorem zero_batchSize_accepted:
  "program sample_env (sample_argv(''batchSize'' \<mapsto> JNum 0)) =
     Inr \<lparr>exitCode = None, stderr = [], npmlog_level = JStr ''info'',
          npmlog_stream = Some (WriteStream (JStr ''discount-code-export.log'')),
          trace = [GetCredentials (JStr ''my-project''),
                   CreateInterface (ReadStream ''template.csv''),
                   NewDiscountCodeExport (sample_options\<lparr>co_batchSize := JNum 0\<rparr>),
                   RunExport (sample_options\<lparr>co_batchSize := JNum 0\<rparr>) ProcessStdout]\<rparr>
   \<and> exit_status (program sample_env (sample_argv(''batchSize'' \<mapsto> JNum 0))) = 0"
proof -
  have p: "parse_args sample_env (sample_argv(''batchSize'' \<mapsto> JNum 0)) =
       Inr (sample_args\<lparr>batchSize := JNum 0\<rparr>)"
    by (simp add: parse_args_batchSize parse_sample)
  have i: "initial (sample_argv(''batchSize'' \<mapsto> JNum 0)) = initial sample_argv"
    by (simp add: initial_def coerce_logLevel_def)
  have m: "main sample_env (sample_args\<lparr>batchSize := JNum 0\<rparr>) (initial sample_argv) =
     \<lparr>exitCode = None, stderr = [], npmlog_level = JStr ''info'',
          npmlog_stream = Some (WriteStream (JStr ''discount-code-export.log'')),
          trace = [GetCredentials (JStr ''my-project''),
                   CreateInterface (ReadStream ''template.csv''),
                   NewDiscountCodeExport (sample_options\<lparr>co_batchSize := JNum 0\<rparr>),
                   RunExport (sample_options\<lparr>co_batchSize := JNum 0\<rparr>) ProcessStdout]\<rparr>"
    by (simp add: sample_run_defs sample_options_def Let_def)
  show ?thesis
    by (simp add: program_def p i m exit_status_def)
qed




subsection \<open>The field list\<close>

text \<open>
  C1. An error event before any line rejects the promise of \<open>getFields\<close> with that
  error, and a first line fulfils it (\<open>rl_run_RlError\<close>, \<open>rl_run_Line\<close>). A template
  that ends without a line does neither: \<open>getFields\<close> has no listener for \<open>close\<close>.
  Evaluated on the sample run with an empty \<open>template.csv\<close>: the promise stays pending,
  so neither the export nor the error handler runs, nothing is written to stderr and the
  process ends with status 0.
\<close>

theorem empty_template_never_settles:
  "fst (getFields (sample_env\<lparr>rl_events := (\<lambda>p. [])\<rparr>) sample_args) = Pending
   \<and> program (sample_env\<lparr>rl_events := (\<lambda>p. [])\<rparr>) sample_argv =
       Inr \<lparr>exitCode = None, stderr = [], npmlog_level = JStr ''info'',
            npmlog_stream = Some (WriteStream (JStr ''discount-code-export.log'')),
            trace = [GetCredentials (JStr ''my-project''),
                     CreateInterface (ReadStream ''template.csv'')]\<rparr>
   \<and> exit_status (program (sample_env\<lparr>rl_events := (\<lambda>p. [])\<rparr>) sample_argv) = 0"
proof -
  let ?env = "sample_env\<lparr>rl_events := (\<lambda>p. [])\<rparr>"
  have fields: "getFields ?env sample_args = (Pending, [CreateInterface (ReadStream ''template.csv'')])"
    by (simp add: getFields_def sample_args_def rl_run_Nil)
  have creds: "resolveCredentials ?env sample_args =
      (Resolved [(''clientId'', JStr ''id''), (''clientSecret'', JStr ''secret'')],
       [GetCredentials (JStr ''my-project'')])"
    by (simp add: resolveCredentials_def sample_args_def sample_env_def)
  have prog: "program ?env sample_argv =
       Inr \<lparr>exitCode = None, stderr = [], npmlog_level = JStr ''info'',
            npmlog_stream = Some (WriteStream (JStr ''discount-code-export.log'')),
            trace = [GetCredentials (JStr ''my-project''),
                     CreateInterface (ReadStream ''template.csv'')]\<rparr>"
  proof -
    have init: "initial sample_argv =
        \<lparr>exitCode = None, stderr = [], npmlog_level = JStr ''info'',
         npmlog_stream = None, trace = []\<rparr>"
      by (simp add: initial_def coerce_logLevel_def with_default_def sample_argv_def)
    have out: "output_stream sample_args = ProcessStdout"
      and log: "logFile sample_args = JStr ''discount-code-export.log''"
      by (simp_all add: sample_args_def)
    show ?thesis
      by (simp add: program_def parse_sample_any_events main_def log_stream_def Let_def
          chain_def fields creds init out log)
  qed
  show ?thesis
    by (simp add: fields prog exit_status_def)
qed




text \<open>
  C8. When no template is given, \<open>getFields\<close> is fulfilled with \<open>null\<close> at once and
  creates no readline interface, whatever becomes of the credentials. Every export the
  run constructs is then given \<open>fields = null\<close> and the configured language, and one is
  constructed as soon as the credentials are resolved.
\<close>

theorem no_template_null_fields:
  assumes "argv ''template'' = None" and "parse_args env argv = Inr a"
  shows "getFields env a = (Resolved None, [])
       \<and> (\<forall>opts. NewDiscountCodeExport opts \<in> set (trace (main env a (initial argv)))
             \<longrightarrow> co_fields opts = None \<and> co_language opts = language a)
       \<and> (\<forall>c. fst (resolveCredentials env a) = Resolved c
             \<longrightarrow> NewDiscountCodeExport (build_options a c None)
                   \<in> set (trace (main env a (initial argv))))"
proof -
  have t: "template a = None"
    using assms by (simp add: parse_args_Inr_template)
  have g: "getFields env a = (Resolved None, [])"
    using t by (simp add: getFields_def)
  have n: "co_fields opts = None \<and> co_language opts = language a"
    if "NewDiscountCodeExport opts \<in> set (trace (main env a (initial argv)))" for opts
    using NewDiscountCodeExport_in_main [OF that] g by (auto simp: build_options_def)
  have x: "NewDiscountCodeExport (build_options a c None) \<in> set (trace (main env a (initial argv)))"
    if h: "fst (resolveCredentials env a) = Resolved c" for c
  proof -
    obtain rest where "trace (main env a (initial argv)) =
       trace (initial argv) @ snd (resolveCredentials env a) @ snd (getFields env a)
         @ NewDiscountCodeExport (build_options a c None) # rest"
      using main_eq_export [OF h, where f = None and s = "initial argv"] g by auto
    then show ?thesis by simp
  qed
  show ?thesis
    using g n x by blast
qed

text \<open>
  The sample command line without its template: the export is constructed with
  \<open>fields = null\<close>. With a credential exchange that is rejected, \<open>getFields\<close> is
  fulfilled with \<open>null\<close> all the same.
\<close>

theorem no_template_null_fields_witness:
  "getFields sample_env (sample_args\<lparr>template := None\<rparr>) = (Resolved None, [])
   \<and> NewDiscountCodeExport
        (build_options (sample_args\<lparr>template := None\<rparr>)
           [(''clientId'', JStr ''id''), (''clientSecret'', JStr ''secret'')] None)
      \<in> set (trace (main sample_env (sample_args\<lparr>template := None\<rparr>)
                 (initial (sample_argv(''template'' := None)))))
   \<and> co_fields
        (build_options (sample_args\<lparr>template := None\<rparr>)
           [(''clientId'', JStr ''id''), (''clientSecret'', JStr ''secret'')] None) = None
   \<and> getFields (sample_env\<lparr>getCredentials := (\<lambda>k. Rejected (One (Error ''invalid_client'')))\<rparr>)
        (sample_args\<lparr>template := None\<rparr>) = (Resolved None, [])"
proof -
  let ?env = "sample_env\<lparr>getCredentials := (\<lambda>k. Rejected (One (Error ''invalid_client'')))\<rparr>"
  have a: "(sample_argv(''template'' := None)) ''template'' = None"
    by simp
  have c: "fst (resolveCredentials sample_env (sample_args\<lparr>template := None\<rparr>)) =
      Resolved [(''clientId'', JStr ''id''), (''clientSecret'', JStr ''secret'')]"
    by (simp add: sample_credentials)
  have p: "parse_args ?env (sample_argv(''template'' := None)) = Inr (sample_args\<lparr>template := None\<rparr>)"
    by (simp add: parse_args_def sample_env_def sample_argv_def sample_args_def
        coerce_output_def with_default_def)
  show ?thesis
    using no_template_null_fields [OF a parse_sample_no_template]
      no_template_null_fields [OF a p] c
    by simp
qed

subsection \<open>Credentials\<close>

text \<open>
  C2, as amended. When \<open>accessToken\<close> is truthy, \<open>resolveCredentials\<close> is fulfilled at
  once with the empty object \<open>{}\<close>, \<open>getCredentials\<close> is not called anywhere in the run,
  and every export that is constructed gets empty credentials and the token in its own
  option \<open>accessToken\<close>. Otherwise (no token, or an empty string, 0 or \<open>false\<close>)
  \<open>resolveCredentials\<close> returns the promise of \<open>getCredentials(projectKey)\<close>, and that
  call is the first action of the run.
\<close>

theorem resolveCredentials_by_token:
  "(if truthy (accessToken a)
    then resolveCredentials env a = (Resolved [], [])
       \<and> \<not> list_ex is_GetCredentials (trace (main env a (initial argv)))
       \<and> (\<forall>opts. NewDiscountCodeExport opts \<in> set (trace (main env a (initial argv)))
            \<longrightarrow> api_credentials (co_apiConfig opts) = [] \<and> co_accessToken opts = accessToken a)
    else resolveCredentials env a =
           (getCredentials env (projectKey a), [GetCredentials (projectKey a)])
       \<and> take 1 (trace (main env a (initial argv))) = [GetCredentials (projectKey a)])"
proof (cases "truthy (accessToken a)")
  case True
  then have r: "resolveCredentials env a = (Resolved [], [])"
    by (simp add: resolveCredentials_def)
  have g: "\<not> list_ex is_GetCredentials (trace (main env a (initial argv)))"
    by (simp add: GetCredentials_in_main r)
  have n: "api_credentials (co_apiConfig opts) = [] \<and> co_accessToken opts = accessToken a"
    if "NewDiscountCodeExport opts \<in> set (trace (main env a (initial argv)))" for opts
    using NewDiscountCodeExport_in_main [OF that] r by (auto simp: build_options_def)
  show ?thesis
    using True r g n by simp
next
  case False
  then have r: "resolveCredentials env a =
      (getCredentials env (projectKey a), [GetCredentials (projectKey a)])"
    by (simp add: resolveCredentials_def)
  have "take 1 (take (length (snd (resolveCredentials env a) @ snd (getFields env a)))
     (trace (main env a (initial argv)))) = [GetCredentials (projectKey a)]"
    by (simp only: trace_main_starts) (simp add: r)
  then have "take 1 (trace (main env a (initial argv))) = [GetCredentials (projectKey a)]"
    by (simp add: r min_def)
  then show ?thesis
    using False r by simp
qed

text \<open>The sample run with the access token \<open>secret-token\<close>.\<close>

theorem resolveCredentials_by_token_witness:
  "resolveCredentials sample_env (sample_args\<lparr>accessToken := Some (JStr ''secret-token'')\<rparr>) =
     (Resolved [], [])
   \<and> \<not> list_ex is_GetCredentials
        (trace (main sample_env (sample_args\<lparr>accessToken := Some (JStr ''secret-token'')\<rparr>)
           (initial sample_argv)))
   \<and> NewDiscountCodeExport
        (sample_options\<lparr>co_apiConfig := (co_apiConfig sample_options)\<lparr>api_credentials := []\<rparr>,
           co_accessToken := Some (JStr ''secret-token'')\<rparr>)
      \<in> set (trace (main sample_env (sample_args\<lparr>accessToken := Some (JStr ''secret-token'')\<rparr>)
                 (initial sample_argv)))"
proof -
  let ?a = "sample_args\<lparr>accessToken := Some (JStr ''secret-token'')\<rparr>"
  let ?opts = "sample_options\<lparr>co_apiConfig :=
          (co_apiConfig sample_options)\<lparr>api_credentials := []\<rparr>,
          co_accessToken := Some (JStr ''secret-token'')\<rparr>"
  have t: "truthy (accessToken ?a)"
    by simp
  have n: "NewDiscountCodeExport ?opts \<in> set (trace (main sample_env ?a (initial sample_argv)))"
    by (simp add: sample_run_defs sample_options_def Let_def)
  show ?thesis
    using resolveCredentials_by_token [of ?a sample_env sample_argv] t n
    by simp
qed

text \<open>
  C2 as stated fails: with the access token \<open>secret-token\<close> the credentials are \<open>{}\<close>,
  which hold no token; and with an access token supplied as the empty string the
  credential exchange is called.
\<close>

theorem token_not_in_credentials:
  "resolveCredentials sample_env (sample_args\<lparr>accessToken := Some (JStr ''secret-token'')\<rparr>) =
     (Resolved [], [])
   \<and> \<not> wraps_token [] (JStr ''secret-token'')
   \<and> snd (resolveCredentials sample_env (sample_args\<lparr>accessToken := Some (JStr '''')\<rparr>)) =
       [GetCredentials (JStr ''my-project'')]"
  by (simp add: resolveCredentials_def wraps_token_def sample_args_def)

subsection \<open>Log stream and output\<close>

text \<open>
  C9, as amended. For every accepted command line the log stream and the output stream
  are two streams: when the output is \<open>process.stdout\<close> (the default, or
  \<open>--output stdout\<close>) the logs go to a write stream over the log file; otherwise the
  output is a write stream over the given path and the logs go to \<open>process.stdout\<close>.
  The export is only ever run on the output stream. Nothing is said of the files behind
  the two streams.
\<close>

theorem log_stream_apart_from_output:
  assumes "parse_args env argv = Inr a"
  shows "npmlog_stream (main env a (initial argv)) \<noteq> Some (output_stream a)
       \<and> (if with_default (argv ''output'') (JStr ''stdout'') = JStr ''stdout''
          then output_stream a = ProcessStdout
             \<and> npmlog_stream (main env a (initial argv)) =
                 Some (WriteStream (with_default (argv ''logFile'') (JStr ''discount-code-export.log'')))
          else output_stream a =
                 WriteStream (JStr (toString (with_default (argv ''output'') (JStr ''stdout''))))
             \<and> npmlog_stream (main env a (initial argv)) = Some ProcessStdout)
       \<and> (\<forall>opts out. RunExport opts out \<in> set (trace (main env a (initial argv)))
             \<longrightarrow> out = output_stream a)"
proof -
  have o: "output_stream a = coerce_output (with_default (argv ''output'') (JStr ''stdout''))"
    and l: "logFile a = with_default (argv ''logFile'') (JStr ''discount-code-export.log'')"
    using assms
    by (auto simp: parse_args_def Let_def split: option.splits sum.splits if_splits)
  have r: "\<forall>opts out. RunExport opts out \<in> set (trace (main env a (initial argv)))
             \<longrightarrow> out = output_stream a"
    using RunExport_in_main by blast
  show ?thesis
    using r by (simp add: npmlog_stream_main log_stream_def o l coerce_output_def)
qed

text \<open>The sample run writes its data to \<open>process.stdout\<close> and its logs to the log file.\<close>

theorem log_stream_apart_from_output_witness:
  "output_stream sample_args = ProcessStdout
   \<and> npmlog_stream (main sample_env sample_args (initial sample_argv)) =
       Some (WriteStream (JStr ''discount-code-export.log''))
   \<and> RunExport sample_options ProcessStdout
       \<in> set (trace (main sample_env sample_args (initial sample_argv)))"
proof -
  have d: "with_default (sample_argv ''output'') (JStr ''stdout'') = JStr ''stdout''"
    "with_default (sample_argv ''logFile'') (JStr ''discount-code-export.log'') =
       JStr ''discount-code-export.log''"
    by (simp_all add: with_default_def sample_argv_def)
  have r: "RunExport sample_options ProcessStdout
       \<in> set (trace (main sample_env sample_args (initial sample_argv)))"
    by (simp add: sample_main)
  show ?thesis
    using log_stream_apart_from_output [OF parse_sample] d r by simp
qed

text \<open>
  C9 as stated fails at \<open>--output /dev/stdout\<close>: the data goes to a write stream over
  \<open>/dev/stdout\<close>, the logs go to \<open>process.stdout\<close>, and both write into one file, so
  log lines land among the data.
\<close>

theorem dev_stdout_shares_sink:
  "parse_args sample_env (sample_argv(''output'' \<mapsto> JStr ''/dev/stdout'')) =
     Inr (sample_args\<lparr>output_stream := WriteStream (JStr ''/dev/stdout'')\<rparr>)
   \<and> npmlog_stream (main sample_env (sample_args\<lparr>output_stream := WriteStream (JStr ''/dev/stdout'')\<rparr>)
        (initial (sample_argv(''output'' \<mapsto> JStr ''/dev/stdout'')))) = Some ProcessStdout
   \<and> RunExport sample_options (WriteStream (JStr ''/dev/stdout''))
       \<in> set (trace (main sample_env (sample_args\<lparr>output_stream := WriteStream (JStr ''/dev/stdout'')\<rparr>)
                  (initial (sample_argv(''output'' \<mapsto> JStr ''/dev/stdout'')))))
   \<and> sink (WriteStream (JStr ''/dev/stdout'')) = sink ProcessStdout"
proof -
  have p: "parse_args sample_env (sample_argv(''output'' \<mapsto> JStr ''/dev/stdout'')) =
     Inr (sample_args\<lparr>output_stream := WriteStream (JStr ''/dev/stdout'')\<rparr>)"
    by (simp add: parse_args_def sample_env_def sample_argv_def sample_args_def
        coerce_template_def coerce_output_def with_default_def)
  have r: "RunExport sample_options (WriteStream (JStr ''/dev/stdout''))
       \<in> set (trace (main sample_env (sample_args\<lparr>output_stream := WriteStream (JStr ''/dev/stdout'')\<rparr>)
                  (initial (sample_argv(''output'' \<mapsto> JStr ''/dev/stdout'')))))"
    by (simp add: sample_run_defs sample_options_def Let_def)
  show ?thesis
    using r by (simp add: p npmlog_stream_main log_stream_def)
qed

subsection \<open>The start-up chain\<close>

text \<open>
  C4. The run constructs or runs the export exactly when both the credential promise and
  the field promise are fulfilled. The trace begins with the calls of the two resolvers,
  none of which is an export action. Neither resolver depends on the other: the promise
  and calls of \<open>getFields\<close> are the same whatever \<open>getCredentials\<close> does, and those of
  \<open>resolveCredentials\<close> are the same whatever the readline interface emits.
\<close>

theorem export_after_both_resolved:
  "list_ex is_export_action (trace (main env a (initial argv))) =
     (\<exists>c f. fst (resolveCredentials env a) = Resolved c \<and> fst (getFields env a) = Resolved f)
   \<and> take (length (snd (resolveCredentials env a) @ snd (getFields env a)))
        (trace (main env a (initial argv))) = snd (resolveCredentials env a) @ snd (getFields env a)
   \<and> \<not> list_ex is_export_action (snd (resolveCredentials env a) @ snd (getFields env a))
   \<and> getFields (env\<lparr>getCredentials := g\<rparr>) a = getFields env a
   \<and> resolveCredentials (env\<lparr>rl_events := r\<rparr>) a = resolveCredentials env a"
proof -
  have i: "getFields (env\<lparr>getCredentials := g\<rparr>) a = getFields env a"
    by (simp add: getFields_def split: option.splits read_stream.splits)
  have j: "resolveCredentials (env\<lparr>rl_events := r\<rparr>) a = resolveCredentials env a"
    by (simp add: resolveCredentials_def)
  show ?thesis
    using export_actions_in_main [of env a argv] trace_main_starts [of env a argv]
      export_actions_resolvers [of env a] i j
    by blast
qed

text \<open>
  The sample run reaches the export; with a credential exchange that is rejected it
  does not.
\<close>

theorem export_after_both_resolved_witness:
  "list_ex is_export_action (trace (main sample_env sample_args (initial sample_argv)))
   \<and> fst (resolveCredentials sample_env sample_args) =
       Resolved [(''clientId'', JStr ''id''), (''clientSecret'', JStr ''secret'')]
   \<and> fst (getFields sample_env sample_args) = Resolved (Some [''id'', ''name'', ''code''])
   \<and> \<not> list_ex is_export_action
        (trace (main (sample_env\<lparr>getCredentials := (\<lambda>k. Rejected (One (Error ''invalid_client'')))\<rparr>)
           sample_args (initial sample_argv)))"
proof -
  let ?env = "sample_env\<lparr>getCredentials := (\<lambda>k. Rejected (One (Error ''invalid_client'')))\<rparr>"
  have c: "fst (resolveCredentials sample_env sample_args) =
       Resolved [(''clientId'', JStr ''id''), (''clientSecret'', JStr ''secret'')]"
    using sample_credentials [of "template sample_args"] by simp
  have f: "fst (getFields sample_env sample_args) = Resolved (Some [''id'', ''name'', ''code''])"
    by (simp add: sample_fields)
  have r: "fst (resolveCredentials ?env sample_args) = Rejected (One (Error ''invalid_client''))"
    by (simp add: resolveCredentials_def sample_args_def sample_env_def)
  show ?thesis
    using export_after_both_resolved [of sample_env sample_args sample_argv]
      export_after_both_resolved [of ?env sample_args sample_argv] c f r
    by simp
qed

text \<open>
  C5, as amended. The error handler is called once for each \<open>error\<close> event of the
  output stream and once more exactly when the chain is rejected; the chain is rejected
  by the join of the two resolvers (with the reason of the first of them to reject), by
  a throw of the constructor or by the promise of \<open>run\<close>. Each call writes one line per
  error to stderr, and the exit code is 1 exactly when the handler was called.
\<close>

theorem errors_reach_handler:
  "handled (trace (main env a (initial argv))) =
     output_errors (trace (main env a (initial argv))) @ rejection (fst (chain env a (initial argv)))
   \<and> exitCode (main env a (initial argv)) =
       (if handled (trace (main env a (initial argv))) = [] then None else Some 1)
   \<and> stderr (main env a (initial argv)) =
       map (report_line env (coerce_logLevel argv))
         (concat (map errors_of (handled (trace (main env a (initial argv))))))
   \<and> fst (chain env a (initial argv)) =
       (case promise_all (credentials_first env) (fst (resolveCredentials env a))
               (fst (getFields env a)) of
          Pending \<Rightarrow> Pending
        | Rejected e \<Rightarrow> Rejected e
        | Resolved r \<Rightarrow>
            (case construct env (build_options a (fst r) (snd r)) of
               Some e \<Rightarrow> Rejected e
             | None \<Rightarrow> returned (run env (build_options a (fst r) (snd r)) (output_stream a))))"
proof (cases env a "initial argv" rule: main_cases)
  case Pending
  then show ?thesis
    by (simp add: initial_def handled_append output_errors_append handled_starts)
next
  case (Rejected e)
  then show ?thesis
    by (simp add: initial_def handled_append output_errors_append handled_starts)
next
  case (Throws c f e)
  then show ?thesis
    by (simp add: initial_def handled_append output_errors_append handled_starts)
next
  case (Runs c f r)
  then show ?thesis
    by (simp add: initial_def handled_append output_errors_append handled_starts
        handled_output_events output_errors_output_events handled_handlers)
qed

text \<open>The sample run with a constructor that throws.\<close>

theorem errors_reach_handler_witness:
  "handled (trace (main
       (sample_env\<lparr>construct := (\<lambda>opts. Some (One (Error ''The batchSize must not be more than 500'')))\<rparr>)
       sample_args (initial sample_argv))) = [One (Error ''The batchSize must not be more than 500'')]
   \<and> exitCode (main
       (sample_env\<lparr>construct := (\<lambda>opts. Some (One (Error ''The batchSize must not be more than 500'')))\<rparr>)
       sample_args (initial sample_argv)) = Some 1
   \<and> stderr (main
       (sample_env\<lparr>construct := (\<lambda>opts. Some (One (Error ''The batchSize must not be more than 500'')))\<rparr>)
       sample_args (initial sample_argv)) = [''ERR: The batchSize must not be more than 500'']"
proof -
  let ?env = "sample_env\<lparr>construct := (\<lambda>opts. Some (One (Error ''The batchSize must not be more than 500'')))\<rparr>"
  have o: "output_errors (trace (main ?env sample_args (initial sample_argv))) = []"
    by (simp add: sample_run_defs Let_def)
  have c: "promise_all (credentials_first ?env) (fst (resolveCredentials ?env sample_args))
      (fst (getFields ?env sample_args)) =
        Resolved ([(''clientId'', JStr ''id''), (''clientSecret'', JStr ''secret'')],
                  Some [''id'', ''name'', ''code''])"
    by (simp add: resolveCredentials_def getFields_def sample_env_def sample_args_def
        rl_run_Line split_js_def)
  have k: "construct ?env opts = Some (One (Error ''The batchSize must not be more than 500''))" for opts
    by simp
  have l: "coerce_logLevel sample_argv = JStr ''info''"
    by (simp add: coerce_logLevel_def with_default_def sample_argv_def)
  show ?thesis
    using errors_reach_handler [of ?env sample_args sample_argv]
    by (simp only: o c k l) (simp add: report_line_def)
qed

text \<open>
  C5 as stated fails when both resolvers fail: the credential exchange is rejected with
  \<open>invalid_client\<close> and the template with a read error, and only the first reaches the
  error handler and stderr.
\<close>

theorem second_failure_not_reported:
  "fst (resolveCredentials
         (sample_env\<lparr>getCredentials := (\<lambda>k. Rejected (One (Error ''invalid_client''))),
                     rl_events := (\<lambda>p. [RlError (Error ''EIO: i/o error, read'')])\<rparr>)
         sample_args) = Rejected (One (Error ''invalid_client''))
   \<and> fst (getFields
         (sample_env\<lparr>getCredentials := (\<lambda>k. Rejected (One (Error ''invalid_client''))),
                     rl_events := (\<lambda>p. [RlError (Error ''EIO: i/o error, read'')])\<rparr>)
         sample_args) = Rejected (One (Error ''EIO: i/o error, read''))
   \<and> handled (trace (main
         (sample_env\<lparr>getCredentials := (\<lambda>k. Rejected (One (Error ''invalid_client''))),
                     rl_events := (\<lambda>p. [RlError (Error ''EIO: i/o error, read'')])\<rparr>)
         sample_args (initial sample_argv))) = [One (Error ''invalid_client'')]
   \<and> stderr (main
         (sample_env\<lparr>getCredentials := (\<lambda>k. Rejected (One (Error ''invalid_client''))),
                     rl_events := (\<lambda>p. [RlError (Error ''EIO: i/o error, read'')])\<rparr>)
         sample_args (initial sample_argv)) = [''ERR: invalid_client'']"
  by (simp add: sample_run_defs Let_def report_line_def)

end
